theory Spec2Isabelle
  imports Main
begin

section \<open>JavaScript strings\<close>

text \<open>
  A JavaScript string is a sequence of UTF-16 code units; \<open>length\<close>, \<open>split\<close>,
  \<open>includes\<close> and the regular expressions of the scraper all work on code units.
  A code unit is modelled as a natural number below 65536, and \<open>js\<close> embeds an ASCII
  literal.
\<close>

type_synonym jsstring = "nat list"

definition js :: "string \<Rightarrow> jsstring" where
  "js s = map of_char s"

text \<open>The bullet U+2022 that \<open>parseLocation\<close> splits on, and the comma.\<close>

definition bullet :: nat where
  "bullet = 8226"

definition comma :: nat where
  "comma = 44"

text \<open>\<open>\d\<close> of a regular expression without the unicode flag: the ASCII digits.\<close>

definition isDigit :: "nat \<Rightarrow> bool" where
  "isDigit c = (48 \<le> c \<and> c \<le> 57)"

text \<open>
  \<open>\s\<close> and \<open>String.prototype.trim\<close> use the same set: ECMAScript WhiteSpace
  (TAB, VT, FF, SP, NBSP, ZWNBSP and the category Zs) and LineTerminator (LF, CR, LS, PS).
\<close>

definition isWhiteSpace :: "nat \<Rightarrow> bool" where
  "isWhiteSpace c =
     ((9 \<le> c \<and> c \<le> 13) \<or> c = 32 \<or> c = 160 \<or> c = 5760 \<or> (8192 \<le> c \<and> c \<le> 8202) \<or>
      c = 8232 \<or> c = 8233 \<or> c = 8239 \<or> c = 8287 \<or> c = 12288 \<or> c = 65279)"

text \<open>
  \<open>toLowerCase\<close>, on the ASCII letters. Code units outside \<open>A-Z\<close> are left
  unchanged; this is exact for every string whose upper-case letters are ASCII.
\<close>

definition lowerUnit :: "nat \<Rightarrow> nat" where
  "lowerUnit c = (if 65 \<le> c \<and> c \<le> 90 then c + 32 else c)"

definition toLowerCase :: "jsstring \<Rightarrow> jsstring" where
  "toLowerCase s = map lowerUnit s"

definition trim :: "jsstring \<Rightarrow> jsstring" where
  "trim s = rev (dropWhile isWhiteSpace (rev (dropWhile isWhiteSpace s)))"

text \<open>\<open>s.startsWith(p)\<close> and \<open>s.includes(p)\<close>.\<close>

fun startsWith :: "jsstring \<Rightarrow> jsstring \<Rightarrow> bool" where
  "startsWith s [] = True"
| "startsWith [] (p # ps) = False"
| "startsWith (c # cs) (p # ps) = (c = p \<and> startsWith cs ps)"

fun includes_js :: "jsstring \<Rightarrow> jsstring \<Rightarrow> bool" where
  "includes_js [] p = startsWith [] p"
| "includes_js (c # cs) p = (startsWith (c # cs) p \<or> includes_js cs p)"

text \<open>
  \<open>s.split(sep)\<close> for a separator of one code unit: the pieces between the
  occurrences of \<open>sep\<close>, so the result is never empty and \<open>''''.split(sep)\<close> is
  \<open>['''']\<close>.
\<close>

fun split :: "nat \<Rightarrow> jsstring \<Rightarrow> jsstring list" where
  "split sep [] = [[]]"
| "split sep (c # cs) =
     (case split sep cs of
        [] \<Rightarrow> [[c]]
      | p # ps \<Rightarrow> if c = sep then [] # p # ps else (c # p) # ps)"

section \<open>parseLocation\<close>

record location_parts =
  parsed_city :: jsstring
  parsed_state :: jsstring

definition parseLocation :: "jsstring \<Rightarrow> location_parts" where
  "parseLocation locationString =
     (let cleanLocation = trim (hd (split bullet locationString));
          parts = map trim (split comma cleanLocation)
      in if length parts \<ge> 2
         then \<lparr> parsed_city = parts ! 0, parsed_state = parts ! 1 \<rparr>
         else \<lparr> parsed_city = cleanLocation, parsed_state = [] \<rparr>)"

section \<open>Numbers in strings\<close>

text \<open>
  JavaScript numbers are doubles. The model computes with unbounded integers, which is
  exact for every value below \<open>2 ^ 53\<close>, and writes \<open>NaN\<close> as \<open>None\<close>.

  \<open>digitsValue\<close> is the value of a string of ASCII digits and \<open>decimal\<close> is
  \<open>String(n)\<close> for a natural number.
\<close>

definition digitValue :: "nat \<Rightarrow> nat" where
  "digitValue c = c - 48"

definition digitsValue :: "jsstring \<Rightarrow> nat" where
  "digitsValue ds = foldl (\<lambda>n c. 10 * n + digitValue c) 0 ds"

fun decimal :: "nat \<Rightarrow> jsstring" where
  "decimal n = (if n < 10 then [48 + n] else decimal (n div 10) @ [48 + n mod 10])"

declare decimal.simps [simp del]

text \<open>
  \<open>parseInt(s)\<close> without a radix: leading white space is skipped, a sign is read,
  and the longest prefix of digits is the value; without a digit the result is
  \<open>NaN\<close>. The prefix \<open>0x\<close> of a hexadecimal literal is not modelled.
\<close>

definition parseInt :: "jsstring \<Rightarrow> int option" where
  "parseInt s =
     (let t = dropWhile isWhiteSpace s;
          negative = (t \<noteq> [] \<and> hd t = 45);
          r = (if t \<noteq> [] \<and> (hd t = 45 \<or> hd t = 43) then tl t else t);
          ds = takeWhile isDigit r
      in if ds = [] then None
         else Some (if negative then - int (digitsValue ds) else int (digitsValue ds)))"

text \<open>
  \<open>Number(s)\<close> on a string: the empty string is \<open>0\<close>, a string of digits is its
  value, and every other string is \<open>NaN\<close>. This is exact on the pieces of a string
  written by \<open>formatDateTime\<close> (digits, the empty string, \<open>NaN\<close>, and pieces with a
  letter or a colon); signs, white space, fractions, exponents and radix prefixes are not
  modelled.
\<close>

definition toNumber :: "jsstring \<Rightarrow> int option" where
  "toNumber s =
     (if s = [] then Some 0
      else if list_all isDigit s then Some (int (digitsValue s))
      else None)"

text \<open>\<open>String(n)\<close> for an integer, and \<open>s.padStart(k, '0')\<close>.\<close>

definition numberToString :: "int \<Rightarrow> jsstring" where
  "numberToString n = (if n < 0 then 45 # decimal (nat (- n)) else decimal (nat n))"

definition padStart :: "nat \<Rightarrow> jsstring \<Rightarrow> jsstring" where
  "padStart k s = replicate (k - length s) 48 @ s"

section \<open>The scraper object and the service descriptor\<close>

text \<open>
  The fields of \<open>JobScraper\<close> that the extraction pipeline reads and writes:
  \<open>maxHoursWindow\<close>, and the token pool \<open>_availableTimes\<close>, its cursor
  \<open>_timeIndex\<close> and \<open>_lastTimeString\<close> (undefined until the first assignment).
\<close>

record scraper =
  maxHoursWindow :: int
  availableTimes :: "jsstring list"
  timeIndex :: nat
  lastTimeString :: "jsstring option"

text \<open>
  An entry of \<open>services.json\<close>. The code reads \<open>name\<close>, \<open>display_name\<close>,
  \<open>table\<close>, \<open>enabled\<close> and \<open>validationWords\<close>; the field
  \<open>maxHoursWindow\<close> of the descriptor is listed by the specification and is read
  nowhere in the code. The record field is called \<open>svc_maxHoursWindow\<close> to keep it
  apart from the field of the scraper object.
\<close>

record service =
  name :: jsstring
  display_name :: jsstring
  table :: jsstring
  enabled :: bool
  validationWords :: "jsstring list option"
  svc_maxHoursWindow :: "int option"

text \<open>
  The constructor: \<open>Number(process.env.MAX_HOURS) > 0 ? Number(process.env.MAX_HOURS) : 6\<close>.
  The argument is the value of \<open>Number(process.env.MAX_HOURS)\<close> when it is an
  integer, and \<open>None\<close> when it is \<open>NaN\<close> (the variable is unset or is not a
  number).
\<close>

definition JobScraper :: "int option \<Rightarrow> scraper" where
  "JobScraper max_hours =
     \<lparr> maxHoursWindow = (case max_hours of
                            None \<Rightarrow> 6
                          | Some n \<Rightarrow> if n > 0 then n else 6),
       availableTimes = [],
       timeIndex = 0,
       lastTimeString = None \<rparr>"

section \<open>The two regular expressions\<close>

text \<open>
  \<open>firstAlternative us s\<close> is the first alternative of \<open>(u1|u2|...)\<close> that
  matches at the start of \<open>s\<close>.
\<close>

fun firstAlternative :: "jsstring list \<Rightarrow> jsstring \<Rightarrow> jsstring option" where
  "firstAlternative [] s = None"
| "firstAlternative (u # us) s = (if startsWith s u then Some u else firstAlternative us s)"

text \<open>
  \<open>/(\d+)\s*(hour|minute|min)/\<close>, the expression of \<open>isTimeWithin6Hours\<close>,
  anchored at the start of \<open>s\<close>; the result is the pair of capture groups. Both
  \<open>\d+\<close> and \<open>\s*\<close> are followed by a letter, so the only way to match is to take
  the whole run of digits and the whole run of white space: giving back a character
  leaves a digit or a white space where a letter is required.
\<close>

definition windowRegex_at :: "jsstring \<Rightarrow> (jsstring \<times> jsstring) option" where
  "windowRegex_at s =
     (let ds = takeWhile isDigit s;
          rest = dropWhile isWhiteSpace (dropWhile isDigit s)
      in if ds = [] then None
         else map_option (\<lambda>u. (ds, u))
                (firstAlternative [js ''hour'', js ''minute'', js ''min''] rest))"

text \<open>\<open>s.match(re)\<close> without the global flag: the leftmost match.\<close>

fun windowRegex :: "jsstring \<Rightarrow> (jsstring \<times> jsstring) option" where
  "windowRegex [] = None"
| "windowRegex (c # cs) =
     (case windowRegex_at (c # cs) of
        Some m \<Rightarrow> Some m
      | None \<Rightarrow> windowRegex cs)"

text \<open>
  \<open>/(\d+)\s*(hour|hours|day|days|minute|minutes)\s*ago/gi\<close>, the expression of the
  token pool, anchored at the start of \<open>s\<close>. Without the unicode flag a letter of the
  pattern matches exactly its lower-case and its upper-case ASCII form, which is
  \<open>lowerUnit c = p\<close>. The alternatives are tried in order, each one followed by
  \<open>\s*ago\<close>, as the backtracking matcher does. The result is the two capture groups
  and the length of the match.
\<close>

fun unitAgo :: "jsstring list \<Rightarrow> jsstring \<Rightarrow> (jsstring \<times> nat) option" where
  "unitAgo [] r = None"
| "unitAgo (u # us) r =
     (if startsWith (toLowerCase r) u \<and>
         startsWith (toLowerCase (dropWhile isWhiteSpace (drop (length u) r))) (js ''ago'')
      then Some (take (length u) r,
                 length r - length (dropWhile isWhiteSpace (drop (length u) r)) + 3)
      else unitAgo us r)"

definition timeUnits :: "jsstring list" where
  "timeUnits = [js ''hour'', js ''hours'', js ''day'', js ''days'', js ''minute'', js ''minutes'']"

definition timeRegex_at :: "jsstring \<Rightarrow> (jsstring \<times> jsstring \<times> nat) option" where
  "timeRegex_at s =
     (let ds = takeWhile isDigit s;
          r = dropWhile isWhiteSpace (dropWhile isDigit s)
      in if ds = [] then None
         else (case unitAgo timeUnits r of
                 None \<Rightarrow> None
               | Some (u, n) \<Rightarrow> Some (ds, u, length s - length r + n)))"

text \<open>
  \<open>html.match(timeRegex) || []\<close> with the global flag: every match from left to
  right, each search starting where the previous match ended. A match is never empty.
\<close>

fun matchAll :: "jsstring \<Rightarrow> jsstring list" where
  "matchAll [] = []"
| "matchAll (c # cs) =
     (case timeRegex_at (c # cs) of
        None \<Rightarrow> matchAll cs
      | Some (ds, u, n) \<Rightarrow> take n (c # cs) # matchAll (drop (n - 1) cs))"

section \<open>The recency window filter\<close>

definition isTimeWithin6Hours :: "scraper \<Rightarrow> jsstring \<Rightarrow> bool" where
  "isTimeWithin6Hours this timeString =
     (if timeString = [] then False
      else (case windowRegex (toLowerCase timeString) of
              None \<Rightarrow> False
            | Some (m1, unit) \<Rightarrow>
                if includes_js unit (js ''minute'') \<or> includes_js unit (js ''min'') then True
                else if includes_js unit (js ''hour'')
                     then (case parseInt m1 of
                             None \<Rightarrow> False
                           | Some number \<Rightarrow> number \<le> maxHoursWindow this)
                     else False))"

text \<open>\<open>isWithin6Hours\<close> looks at \<open>_lastTimeString\<close>, not at its argument.\<close>

definition isWithin6Hours :: "scraper \<Rightarrow> jsstring \<Rightarrow> bool" where
  "isWithin6Hours this dateTimeString =
     (if dateTimeString = [] then False
      else (case lastTimeString this of
              None \<Rightarrow> False
            | Some t \<Rightarrow> if t = [] then False else isTimeWithin6Hours this t))"

section \<open>The Date object\<close>

text \<open>
  The scraper reads the clock and computes with \<open>Date\<close> objects. They are modelled
  after ECMA-262, section 21.4.1: a date is its time value, the number of milliseconds
  since the epoch in UTC, or \<open>NaN\<close> for an invalid date (\<open>None\<close>). The local time
  zone is a fixed offset \<open>tza\<close> in milliseconds (no daylight saving), so that
  \<open>LocalTime(t) = t + tza\<close> and \<open>UTC(t) = t - tza\<close>.
\<close>

type_synonym jsdate = "int option"

definition msPerDay :: int where
  "msPerDay = 86400000"

definition msPerHour :: int where
  "msPerHour = 3600000"

definition msPerMinute :: int where
  "msPerMinute = 60000"

definition msPerSecond :: int where
  "msPerSecond = 1000"

definition Day :: "int \<Rightarrow> int" where
  "Day t = t div msPerDay"

definition TimeWithinDay :: "int \<Rightarrow> int" where
  "TimeWithinDay t = t mod msPerDay"

definition DaysInYear :: "int \<Rightarrow> int" where
  "DaysInYear y =
     (if y mod 4 \<noteq> 0 then 365
      else if y mod 100 \<noteq> 0 then 366
      else if y mod 400 \<noteq> 0 then 365
      else 366)"

definition DayFromYear :: "int \<Rightarrow> int" where
  "DayFromYear y =
     365 * (y - 1970) + (y - 1969) div 4 - (y - 1901) div 100 + (y - 1601) div 400"

lemma div_succ:
  fixes x n :: int
  assumes "0 < n"
  shows "(x + 1) div n = x div n + (if (x + 1) mod n = 0 then 1 else 0)"
proof -
  define q where "q = x div n"
  define r where "r = x mod n"
  have x: "x + 1 = n * q + (r + 1)" by (simp add: q_def r_def)
  have r: "0 \<le> r" "r < n" using assms by (simp_all add: r_def)
  have d: "(x + 1) div n = q + (r + 1) div n"
    unfolding x using assms by (simp only: div_mult_self4)
  have m: "(x + 1) mod n = (r + 1) mod n"
    unfolding x by (simp only: mod_mult_self4)
  show ?thesis
  proof (cases "r + 1 < n")
    case True
    then have "(r + 1) div n = 0" "(r + 1) mod n = r + 1" using r by simp_all
    then show ?thesis using d m r by (simp add: q_def)
  next
    case False
    then have "r + 1 = n" using r by simp
    then have "(r + 1) div n = 1" "(r + 1) mod n = 0" using assms by simp_all
    then show ?thesis using d m by (simp add: q_def)
  qed
qed

lemma DayFromYear_succ: "DayFromYear (y + 1) = DayFromYear y + DaysInYear y"
proof -
  have a: "(y + 1 - 1969) div 4 = (y - 1969) div 4 + (if y mod 4 = 0 then 1 else 0)"
  proof -
    have "y - 1969 + 1 = y + 4 * (-492)" by simp
    then have m: "(y - 1969 + 1) mod 4 = y mod 4" by (simp only: mod_mult_self2)
    have e: "y + 1 - 1969 = y - 1969 + 1" by simp
    have "(y - 1969 + 1) div 4 =
          (y - 1969) div 4 + (if (y - 1969 + 1) mod 4 = 0 then 1 else 0)"
      by (rule div_succ) simp
    then show ?thesis by (simp only: e m)
  qed
  have b: "(y + 1 - 1901) div 100 = (y - 1901) div 100 + (if y mod 100 = 0 then 1 else 0)"
  proof -
    have "y - 1901 + 1 = y + 100 * (-19)" by simp
    then have m: "(y - 1901 + 1) mod 100 = y mod 100" by (simp only: mod_mult_self2)
    have e: "y + 1 - 1901 = y - 1901 + 1" by simp
    have "(y - 1901 + 1) div 100 =
          (y - 1901) div 100 + (if (y - 1901 + 1) mod 100 = 0 then 1 else 0)"
      by (rule div_succ) simp
    then show ?thesis by (simp only: e m)
  qed
  have c: "(y + 1 - 1601) div 400 = (y - 1601) div 400 + (if y mod 400 = 0 then 1 else 0)"
  proof -
    have "y - 1601 + 1 = y + 400 * (-4)" by simp
    then have m: "(y - 1601 + 1) mod 400 = y mod 400" by (simp only: mod_mult_self2)
    have e: "y + 1 - 1601 = y - 1601 + 1" by simp
    have "(y - 1601 + 1) div 400 =
          (y - 1601) div 400 + (if (y - 1601 + 1) mod 400 = 0 then 1 else 0)"
      by (rule div_succ) simp
    then show ?thesis by (simp only: e m)
  qed
  have d: "y mod 100 = 0" if "y mod 400 = 0"
  proof -
    from that have "400 dvd y" by (simp add: mod_eq_0_iff_dvd)
    moreover have "(100::int) dvd 400" by simp
    ultimately have "100 dvd y" by (rule dvd_trans [rotated])
    then show ?thesis by (simp add: mod_eq_0_iff_dvd)
  qed
  have e: "y mod 4 = 0" if "y mod 100 = 0"
  proof -
    from that have "100 dvd y" by (simp add: mod_eq_0_iff_dvd)
    moreover have "(4::int) dvd 100" by simp
    ultimately have "4 dvd y" by (rule dvd_trans [rotated])
    then show ?thesis by (simp add: mod_eq_0_iff_dvd)
  qed
  show ?thesis
  proof (cases "y mod 4 = 0")
    case False
    then have "y mod 100 \<noteq> 0" "y mod 400 \<noteq> 0" using d e by auto
    then show ?thesis using False unfolding DayFromYear_def DaysInYear_def a b c by simp
  next
    case True
    show ?thesis
    proof (cases "y mod 100 = 0")
      case False
      then have "y mod 400 \<noteq> 0" using d by auto
      then show ?thesis using True False unfolding DayFromYear_def DaysInYear_def a b c by simp
    next
      case h: True
      show ?thesis using True h unfolding DayFromYear_def DaysInYear_def a b c by simp
    qed
  qed
qed

lemma DaysInYear_bounds: "365 \<le> DaysInYear y \<and> DaysInYear y \<le> 366"
  by (simp add: DaysInYear_def)

text \<open>
  \<open>YearFromTime(t)\<close> is the largest year \<open>y\<close> with \<open>DayFromYear(y) \<le> Day(t)\<close>.
  It is computed by a search upwards from a year that is not after the result.
\<close>

function yearFrom :: "int \<Rightarrow> int \<Rightarrow> int" where
  "yearFrom d y = (if DayFromYear (y + 1) \<le> d then yearFrom d (y + 1) else y)"
  by pat_completeness auto

termination
proof (relation "measure (\<lambda>(d, y). nat (d + 1 - DayFromYear (y + 1)))")
  show "wf (measure (\<lambda>(d, y). nat (d + 1 - DayFromYear (y + 1))))" by simp
next
  fix d y :: int
  assume "DayFromYear (y + 1) \<le> d"
  moreover have "DayFromYear (y + 1) + 365 \<le> DayFromYear (y + 1 + 1)"
    using DayFromYear_succ [of "y + 1"] DaysInYear_bounds [of "y + 1"] by linarith
  ultimately show "((d, y + 1), (d, y)) \<in> measure (\<lambda>(d, y). nat (d + 1 - DayFromYear (y + 1)))"
    by simp
qed

declare yearFrom.simps [simp del]

definition YearFromDay :: "int \<Rightarrow> int" where
  "YearFromDay d = yearFrom d (1970 + (if 0 \<le> d then d div 366 else d div 365))"

definition YearFromTime :: "int \<Rightarrow> int" where
  "YearFromTime t = YearFromDay (Day t)"

definition InLeapYear :: "int \<Rightarrow> int" where
  "InLeapYear t = (if DaysInYear (YearFromTime t) = 366 then 1 else 0)"

definition DayWithinYear :: "int \<Rightarrow> int" where
  "DayWithinYear t = Day t - DayFromYear (YearFromTime t)"

text \<open>The number of days of the year before month \<open>m\<close> (0 to 11), \<open>l\<close> being 1 in a leap year.\<close>

definition daysBeforeMonth :: "int \<Rightarrow> int \<Rightarrow> int" where
  "daysBeforeMonth m l =
     (if m = 0 then 0 else if m = 1 then 31 else if m = 2 then 59 + l
      else if m = 3 then 90 + l else if m = 4 then 120 + l else if m = 5 then 151 + l
      else if m = 6 then 181 + l else if m = 7 then 212 + l else if m = 8 then 243 + l
      else if m = 9 then 273 + l else if m = 10 then 304 + l else 334 + l)"

definition MonthFromTime :: "int \<Rightarrow> int" where
  "MonthFromTime t =
     (let d = DayWithinYear t; l = InLeapYear t
      in if d < 31 then 0 else if d < 59 + l then 1 else if d < 90 + l then 2
         else if d < 120 + l then 3 else if d < 151 + l then 4 else if d < 181 + l then 5
         else if d < 212 + l then 6 else if d < 243 + l then 7 else if d < 273 + l then 8
         else if d < 304 + l then 9 else if d < 334 + l then 10 else 11)"

definition DateFromTime :: "int \<Rightarrow> int" where
  "DateFromTime t = DayWithinYear t - daysBeforeMonth (MonthFromTime t) (InLeapYear t) + 1"

definition HourFromTime :: "int \<Rightarrow> int" where
  "HourFromTime t = (t div msPerHour) mod 24"

definition MinFromTime :: "int \<Rightarrow> int" where
  "MinFromTime t = (t div msPerMinute) mod 60"

definition SecFromTime :: "int \<Rightarrow> int" where
  "SecFromTime t = (t div msPerSecond) mod 60"

definition msFromTime :: "int \<Rightarrow> int" where
  "msFromTime t = t mod msPerSecond"

definition MakeTime :: "int \<Rightarrow> int \<Rightarrow> int \<Rightarrow> int \<Rightarrow> int" where
  "MakeTime hour minute sec ms = hour * msPerHour + minute * msPerMinute + sec * msPerSecond + ms"

text \<open>
  \<open>MakeDay\<close>: the day number of the first day of month \<open>month\<close> of year \<open>year\<close>
  (months outside 0 to 11 carry into the year), plus \<open>date - 1\<close>.
\<close>

definition MakeDay :: "int \<Rightarrow> int \<Rightarrow> int \<Rightarrow> int" where
  "MakeDay year month date =
     (let ym = year + month div 12;
          mn = month mod 12
      in DayFromYear ym + daysBeforeMonth mn (if DaysInYear ym = 366 then 1 else 0) + date - 1)"

definition MakeDate :: "int \<Rightarrow> int \<Rightarrow> int" where
  "MakeDate day time = day * msPerDay + time"

definition TimeClip :: "int \<Rightarrow> jsdate" where
  "TimeClip t = (if \<bar>t\<bar> > 8640000000000000 then None else Some t)"

text \<open>The getters, on the time value of a valid date.\<close>

definition getFullYear :: "int \<Rightarrow> int \<Rightarrow> int" where
  "getFullYear tza t = YearFromTime (t + tza)"

definition getMonth :: "int \<Rightarrow> int \<Rightarrow> int" where
  "getMonth tza t = MonthFromTime (t + tza)"

definition getDate :: "int \<Rightarrow> int \<Rightarrow> int" where
  "getDate tza t = DateFromTime (t + tza)"

definition getHours :: "int \<Rightarrow> int \<Rightarrow> int" where
  "getHours tza t = HourFromTime (t + tza)"

definition getMinutes :: "int \<Rightarrow> int \<Rightarrow> int" where
  "getMinutes tza t = MinFromTime (t + tza)"

text \<open>
  The setters, on the time value of a valid date; the argument is a number or
  \<open>NaN\<close>, and the result is the new time value of the object.
\<close>

definition setMinutes :: "int \<Rightarrow> int \<Rightarrow> int option \<Rightarrow> jsdate" where
  "setMinutes tza t minute =
     (case minute of
        None \<Rightarrow> None
      | Some m \<Rightarrow>
          (let lt = t + tza
           in TimeClip (MakeDate (Day lt)
                (MakeTime (HourFromTime lt) m (SecFromTime lt) (msFromTime lt)) - tza)))"

definition setHours :: "int \<Rightarrow> int \<Rightarrow> int option \<Rightarrow> jsdate" where
  "setHours tza t hour =
     (case hour of
        None \<Rightarrow> None
      | Some h \<Rightarrow>
          (let lt = t + tza
           in TimeClip (MakeDate (Day lt)
                (MakeTime h (MinFromTime lt) (SecFromTime lt) (msFromTime lt)) - tza)))"

definition setDate :: "int \<Rightarrow> int \<Rightarrow> int option \<Rightarrow> jsdate" where
  "setDate tza t date =
     (case date of
        None \<Rightarrow> None
      | Some dt \<Rightarrow>
          (let lt = t + tza
           in TimeClip (MakeDate (MakeDay (YearFromTime lt) (MonthFromTime lt) dt)
                (TimeWithinDay lt) - tza)))"

text \<open>
  \<open>new Date(year, month, date, hours, minutes)\<close>: a year from 0 to 99 means
  1900 + year; any \<open>NaN\<close> argument gives an invalid date.
\<close>

definition newDate ::
  "int \<Rightarrow> int option \<Rightarrow> int option \<Rightarrow> int option \<Rightarrow> int option \<Rightarrow> int option \<Rightarrow> jsdate" where
  "newDate tza year month date hours minutes =
     (case (year, month, date, hours, minutes) of
        (Some y, Some m, Some dt, Some h, Some mi) \<Rightarrow>
          (let yr = (if 0 \<le> y \<and> y \<le> 99 then 1900 + y else y)
           in TimeClip (MakeDate (MakeDay yr m dt) (MakeTime h mi 0 0) - tza))
      | _ \<Rightarrow> None)"

text \<open>
  \<open>toISOString\<close> of a valid date: \<open>YYYY-MM-DDTHH:mm:ss.sssZ\<close> in UTC, the year
  with a sign and six digits outside 0 to 9999.
\<close>

definition toISOString :: "int \<Rightarrow> jsstring" where
  "toISOString t =
     (let y = YearFromTime t;
          year = (if 0 \<le> y \<and> y \<le> 9999 then padStart 4 (decimal (nat y))
                  else (if y < 0 then 45 else 43) # padStart 6 (decimal (nat \<bar>y\<bar>)))
      in year @ js ''-'' @ padStart 2 (decimal (nat (MonthFromTime t + 1))) @ js ''-'' @
         padStart 2 (decimal (nat (DateFromTime t))) @ js ''T'' @
         padStart 2 (decimal (nat (HourFromTime t))) @ js '':'' @
         padStart 2 (decimal (nat (MinFromTime t))) @ js '':'' @
         padStart 2 (decimal (nat (SecFromTime t))) @ js ''.'' @
         padStart 3 (decimal (nat (msFromTime t))) @ js ''Z'')"

section \<open>formatDateTime, convertToActualDateTime and convertToISOString\<close>

text \<open>
  On an invalid date every getter is \<open>NaN\<close>: the year, the month and the day print
  as \<open>NaN\<close>, \<open>NaN >= 12\<close> is false, and \<open>NaN % 12\<close> is falsy, so the hour prints
  as 12.
\<close>

definition formatDateTime :: "int \<Rightarrow> jsdate \<Rightarrow> jsstring" where
  "formatDateTime tza date =
     (case date of
        None \<Rightarrow> js ''NaN-NaN-NaN 12:NaN AM''
      | Some t \<Rightarrow>
          (let year = getFullYear tza t;
               month = padStart 2 (numberToString (getMonth tza t + 1));
               day = padStart 2 (numberToString (getDate tza t));
               hours0 = getHours tza t;
               minutes = padStart 2 (numberToString (getMinutes tza t));
               ampm = (if hours0 \<ge> 12 then js ''PM'' else js ''AM'');
               hours1 = hours0 mod 12;
               hours2 = (if hours1 \<noteq> 0 then hours1 else 12);
               hours = padStart 2 (numberToString hours2)
           in numberToString year @ js ''-'' @ month @ js ''-'' @ day @ js '' '' @
              hours @ js '':'' @ minutes @ js '' '' @ ampm))"

text \<open>
  \<open>/(\d+)\s*(hour|minute|min|day)/\<close>, the expression of
  \<open>convertToActualDateTime\<close>, anchored at the start of \<open>s\<close> and as a search.
\<close>

definition dateRegex_at :: "jsstring \<Rightarrow> (jsstring \<times> jsstring) option" where
  "dateRegex_at s =
     (let ds = takeWhile isDigit s;
          rest = dropWhile isWhiteSpace (dropWhile isDigit s)
      in if ds = [] then None
         else map_option (\<lambda>u. (ds, u))
                (firstAlternative [js ''hour'', js ''minute'', js ''min'', js ''day''] rest))"

fun dateRegex :: "jsstring \<Rightarrow> (jsstring \<times> jsstring) option" where
  "dateRegex [] = None"
| "dateRegex (c # cs) =
     (case dateRegex_at (c # cs) of
        Some m \<Rightarrow> Some m
      | None \<Rightarrow> dateRegex cs)"

text \<open>
  \<open>convertToActualDateTime\<close> stores its argument in \<open>_lastTimeString\<close> and
  returns the formatted date; \<open>now\<close> is the time value of \<open>new Date()\<close>.
\<close>

definition convertToActualDateTime ::
  "scraper \<Rightarrow> int \<Rightarrow> int \<Rightarrow> jsstring \<Rightarrow> jsstring \<times> scraper" where
  "convertToActualDateTime this tza now timeString =
     (if timeString = [] then ([], this)
      else
        (let this1 = this\<lparr> lastTimeString := Some timeString \<rparr>;
             lowerTime = toLowerCase timeString
         in case dateRegex lowerTime of
              None \<Rightarrow> (formatDateTime tza (Some now), this1)
            | Some (m1, unit) \<Rightarrow>
                (let number = parseInt m1;
                     pastDate =
                       (if includes_js unit (js ''minute'') \<or> includes_js unit (js ''min'')
                        then setMinutes tza now (map_option (\<lambda>n. getMinutes tza now - n) number)
                        else if includes_js unit (js ''hour'')
                        then setHours tza now (map_option (\<lambda>n. getHours tza now - n) number)
                        else if includes_js unit (js ''day'')
                        then setDate tza now (map_option (\<lambda>n. getDate tza now - n) number)
                        else Some now)
                 in (formatDateTime tza pastDate, this1))))"

text \<open>
  \<open>convertToISOString\<close>. An element that a destructuring finds missing is
  \<open>undefined\<close> (\<open>None\<close> of \<open>nth_opt\<close>); \<open>Number(undefined)\<close> and
  \<open>parseInt(undefined)\<close> are \<open>NaN\<close>, and \<open>timePart.split\<close> on \<open>undefined\<close>
  throws, which the \<open>catch\<close> turns into \<open>null\<close>. \<open>convertToISOString_date\<close>
  is the object \<open>date\<close> that the function builds; \<open>toISOString\<close> throws on an
  invalid date, which again gives \<open>null\<close>.
\<close>

definition nth_opt :: "'a list \<Rightarrow> nat \<Rightarrow> 'a option" where
  "nth_opt xs i = (if i < length xs then Some (xs ! i) else None)"

definition toNumber_opt :: "jsstring option \<Rightarrow> int option" where
  "toNumber_opt v = (case v of None \<Rightarrow> None | Some s \<Rightarrow> toNumber s)"

definition parseInt_opt :: "jsstring option \<Rightarrow> int option" where
  "parseInt_opt v = (case v of None \<Rightarrow> None | Some s \<Rightarrow> parseInt s)"

definition convertToISOString_date :: "int \<Rightarrow> jsstring \<Rightarrow> jsdate" where
  "convertToISOString_date tza dateTimeString =
     (let parts = split 32 dateTimeString;
          datePart = nth_opt parts 0;
          timePart = nth_opt parts 1;
          ampm = nth_opt parts 2
      in case (datePart, timePart) of
           (Some dp, Some tp) \<Rightarrow>
             (let dparts = split 45 dp;
                  year = nth_opt dparts 0;
                  month = nth_opt dparts 1;
                  day = nth_opt dparts 2;
                  tparts = split 58 tp;
                  hours = nth_opt tparts 0;
                  minutes = nth_opt tparts 1;
                  hour24 = parseInt_opt hours;
                  hour24' =
                    (if ampm = Some (js ''PM'') \<and> hour24 \<noteq> Some 12
                     then map_option (\<lambda>h. h + 12) hour24
                     else if ampm = Some (js ''AM'') \<and> hour24 = Some 12 then Some 0
                     else hour24)
              in newDate tza (toNumber_opt year) (map_option (\<lambda>m. m - 1) (toNumber_opt month))
                   (toNumber_opt day) hour24' (parseInt_opt minutes))
         | _ \<Rightarrow> None)"

definition convertToISOString :: "int \<Rightarrow> jsstring \<Rightarrow> jsstring option" where
  "convertToISOString tza dateTimeString =
     (if dateTimeString = [] then None
      else map_option toISOString (convertToISOString_date tza dateTimeString))"

section \<open>Documents, containers and job records\<close>

text \<open>
  The parsed document is the work of the \<open>jsdom\<close> library. A container element is
  modelled by what \<open>querySelector\<close> finds in it: for a selector, the
  \<open>textContent\<close> of the first matching descendant, or \<open>None\<close> for \<open>null\<close>. A
  document is modelled by \<open>querySelectorAll\<close>: for a selector, the matching elements
  in document order. \<open>new JSDOM(html)\<close> is a parameter of the model that either
  throws or gives the document.
\<close>

type_synonym element = "jsstring \<Rightarrow> jsstring option"

type_synonym document = "jsstring \<Rightarrow> element list"

datatype error = Error jsstring

type_synonym jsdom = "jsstring \<Rightarrow> error + document"

record job =
  service :: jsstring
  service_display_name :: jsstring
  title :: jsstring
  company :: jsstring
  city :: jsstring
  state :: jsstring
  location :: jsstring
  posted_date :: jsstring
  scraped_at :: jsstring
  found_time :: "jsstring option"

record parse_result =
  jobs :: "job list"
  totalFound :: nat

definition CONFIG_maxJobs :: nat where
  "CONFIG_maxJobs = 100"

definition jobSelectors :: "jsstring list" where
  "jobSelectors =
     [js ''.MQUd2b'', js ''.g'', js ''div[jscontroller='' @ [34] @ js ''b11o3b'' @ [34] @ js '']'']"

definition titleSelectors :: "jsstring list" where
  "titleSelectors =
     [js ''.tNxQIb.PUpOsf'', js ''.tNxQIb'', js ''h3'',
      js ''[role='' @ [34] @ js ''heading'' @ [34] @ js '']'', js ''.LC20lb'']"

definition companySelectors :: "jsstring list" where
  "companySelectors =
     [js ''.wHYlTd.MKCbgd.a3jPc'', js ''.wHYlTd.MKCbgd'', js ''.MKCbgd'', js ''.vNEEBe'']"

definition locationSelectors :: "jsstring list" where
  "locationSelectors =
     [js ''.wHYlTd.FqK3wc.MKCbgd'', js ''.FqK3wc.MKCbgd'', js ''.FqK3wc'', js ''.Qk80Jf'']"

text \<open>
  The selector loops of \<open>extractJobDataFromElement\<close>: the first selector whose
  element has a non-empty text that is non-empty after \<open>trim\<close> gives the field, and
  the field keeps its initial value, the empty string, when there is none.
\<close>

fun firstText :: "element \<Rightarrow> jsstring list \<Rightarrow> jsstring" where
  "firstText jobElement [] = []"
| "firstText jobElement (selector # selectors) =
     (case jobElement selector of
        None \<Rightarrow> firstText jobElement selectors
      | Some textContent \<Rightarrow>
          if textContent \<noteq> [] \<and> length (trim textContent) > 0 then trim textContent
          else firstText jobElement selectors)"

definition fallbackTime :: jsstring where
  "fallbackTime = js ''3 hours ago''"

text \<open>
  \<open>extractJobDataFromElement\<close>. The selectors are fixed and valid, so nothing in the
  \<open>try\<close> block throws and the \<open>catch\<close> branch is not part of the model. Both
  readings of the clock in one call (\<open>scraped_at\<close> and \<open>convertToActualDateTime\<close>)
  are the same instant \<open>now\<close>.
\<close>

definition extractJobDataFromElement ::
  "scraper \<Rightarrow> int \<Rightarrow> int \<Rightarrow> element \<Rightarrow> service \<Rightarrow> job \<times> scraper" where
  "extractJobDataFromElement this tza now jobElement svc =
     (let title' = firstText jobElement titleSelectors;
          company' = firstText jobElement companySelectors;
          location' = firstText jobElement locationSelectors;
          parsedLocation = parseLocation location';
          jobData = \<lparr> service = name svc,
                      service_display_name = display_name svc,
                      title = title',
                      company = company',
                      city = (if location' = [] then [] else parsed_city parsedLocation),
                      state = (if location' = [] then [] else parsed_state parsedLocation),
                      location = location',
                      posted_date = [],
                      scraped_at = toISOString now,
                      found_time = None \<rparr>
      in if timeIndex this < length (availableTimes this)
         then
           (let timeString = availableTimes this ! timeIndex this;
                (posted, this1) = convertToActualDateTime this tza now timeString
            in (jobData\<lparr> posted_date := posted, found_time := Some timeString \<rparr>,
                this1\<lparr> lastTimeString := Some timeString, timeIndex := timeIndex this1 + 1 \<rparr>))
         else
           (let (posted, this1) = convertToActualDateTime this tza now fallbackTime
            in (jobData\<lparr> posted_date := posted, found_time := Some fallbackTime \<rparr>,
                this1\<lparr> lastTimeString := Some fallbackTime \<rparr>)))"

section \<open>isValidJobData\<close>

definition hasRequiredData :: "job \<Rightarrow> bool" where
  "hasRequiredData jobData =
     (title jobData \<noteq> [] \<and>
      length (title jobData) > 3 \<and>
      title jobData \<noteq> js ''Jobs'' \<and>
      \<not> includes_js (title jobData) (js ''Search'') \<and>
      (company jobData \<noteq> [] \<or> location jobData \<noteq> []))"

definition passesValidationWords :: "job \<Rightarrow> service \<Rightarrow> bool" where
  "passesValidationWords jobData svc =
     (case validationWords svc of
        None \<Rightarrow> True
      | Some words \<Rightarrow>
          if length words > 0
          then (let lowerTitle = toLowerCase (title jobData)
                in list_ex (\<lambda>word. includes_js lowerTitle (toLowerCase word)) words)
          else True)"

definition isValidJobData :: "scraper \<Rightarrow> job \<Rightarrow> service \<Rightarrow> bool" where
  "isValidJobData this jobData svc =
     (hasRequiredData jobData \<and>
      isWithin6Hours this (posted_date jobData) \<and>
      passesValidationWords jobData svc)"

section \<open>parseJobsFromHTML\<close>

text \<open>The selector loop for the containers: the first selector with a match.\<close>

fun findJobElements :: "document \<Rightarrow> jsstring list \<Rightarrow> element list" where
  "findJobElements doc [] = []"
| "findJobElements doc (selector # selectors) =
     (if length (doc selector) > 0 then doc selector
      else findJobElements doc selectors)"

text \<open>
  The loop over the containers, from index \<open>i\<close>. \<open>clock i\<close> is the time value
  of \<open>new Date()\<close> while container \<open>i\<close> is processed.
\<close>

fun processJobs ::
  "scraper \<Rightarrow> int \<Rightarrow> (nat \<Rightarrow> int) \<Rightarrow> service \<Rightarrow> nat \<Rightarrow> element list \<Rightarrow> job list \<times> scraper" where
  "processJobs this tza clock svc i [] = ([], this)"
| "processJobs this tza clock svc i (jobElement # rest) =
     (let (jobData, this1) = extractJobDataFromElement this tza (clock i) jobElement svc;
          (serviceJobs, this2) = processJobs this1 tza clock svc (i + 1) rest
      in (if isValidJobData this1 jobData svc then jobData # serviceJobs else serviceJobs,
          this2))"

text \<open>
  The record that \<open>extractJobDataFromElement\<close> returns for each container of the
  loop, with the outcome of \<open>isValidJobData\<close>: the loop keeps the records whose
  outcome is true.
\<close>

fun processTrace ::
  "scraper \<Rightarrow> int \<Rightarrow> (nat \<Rightarrow> int) \<Rightarrow> service \<Rightarrow> nat \<Rightarrow> element list \<Rightarrow> (job \<times> bool) list" where
  "processTrace this tza clock svc i [] = []"
| "processTrace this tza clock svc i (jobElement # rest) =
     (let (jobData, this1) = extractJobDataFromElement this tza (clock i) jobElement svc
      in (jobData, isValidJobData this1 jobData svc) #
         processTrace this1 tza clock svc (i + 1) rest)"

text \<open>
  \<open>parseJobsFromHTML\<close>. The first \<open>new JSDOM(html)\<close> stands before the
  \<open>try\<close> block, so what it throws leaves the function (\<open>Inl\<close>); the second one
  is inside, and what it throws is caught.
\<close>

definition parseJobsFromHTML ::
  "scraper \<Rightarrow> jsdom \<Rightarrow> int \<Rightarrow> (nat \<Rightarrow> int) \<Rightarrow> jsstring \<Rightarrow> service \<Rightarrow>
   error + (parse_result \<times> scraper)" where
  "parseJobsFromHTML this JSDOM tza clock html svc =
     (case JSDOM html of
        Inl e \<Rightarrow> Inl e
      | Inr dom' \<Rightarrow>
          (let allTimeMatches = matchAll html;
               this1 = this\<lparr> availableTimes := allTimeMatches, timeIndex := 0 \<rparr>
           in case JSDOM html of
                Inl e \<Rightarrow> Inr (\<lparr> jobs = [], totalFound = 0 \<rparr>, this1)
              | Inr doc \<Rightarrow>
                  (let jobElements = findJobElements doc jobSelectors
                   in if length jobElements = 0
                      then Inr (\<lparr> jobs = [], totalFound = 0 \<rparr>, this1)
                      else
                        (let maxJobs = min (length jobElements) CONFIG_maxJobs;
                             totalJobsFound = length jobElements;
                             (serviceJobs, this2) =
                               processJobs this1 tza clock svc 0 (take maxJobs jobElements)
                         in Inr (\<lparr> jobs = serviceJobs, totalFound = totalJobsFound \<rparr>,
                                 this2)))))"

section \<open>Fingerprints and the rows sent to the store\<close>

text \<open>
  \<open>Buffer.from(data)\<close> encodes the string in UTF-8: a surrogate pair is one code
  point of four bytes, and a lone surrogate is replaced by U+FFFD.
\<close>

fun utf8 :: "jsstring \<Rightarrow> nat list" where
  "utf8 [] = []"
| "utf8 (c # cs) =
     (if c < 128 then c # utf8 cs
      else if c < 2048 then (192 + c div 64) # (128 + c mod 64) # utf8 cs
      else if 55296 \<le> c \<and> c < 56320 then
        (case cs of
           [] \<Rightarrow> [239, 191, 189]
         | d # ds \<Rightarrow>
             if 56320 \<le> d \<and> d < 57344
             then (let cp = 65536 + (c - 55296) * 1024 + (d - 56320)
                   in (240 + cp div 262144) # (128 + cp div 4096 mod 64) #
                      (128 + cp div 64 mod 64) # (128 + cp mod 64) # utf8 ds)
             else 239 # 191 # 189 # utf8 cs)
      else if 56320 \<le> c \<and> c < 57344 then 239 # 191 # 189 # utf8 cs
      else (224 + c div 4096) # (128 + c div 64 mod 64) # (128 + c mod 64) # utf8 cs)"

text \<open>\<open>toString('base64')\<close>: the standard alphabet, with padding.\<close>

definition b64char :: "nat \<Rightarrow> nat" where
  "b64char n =
     (if n < 26 then 65 + n
      else if n < 52 then 97 + (n - 26)
      else if n < 62 then 48 + (n - 52)
      else if n = 62 then 43
      else 47)"

fun base64 :: "nat list \<Rightarrow> jsstring" where
  "base64 [] = []"
| "base64 [a] = [b64char (a div 4), b64char (a mod 4 * 16), 61, 61]"
| "base64 [a, b] =
     [b64char (a div 4), b64char (a mod 4 * 16 + b div 16), b64char (b mod 16 * 4), 61]"
| "base64 (a # b # c # rest) =
     b64char (a div 4) # b64char (a mod 4 * 16 + b div 16) #
     b64char (b mod 16 * 4 + c div 64) # b64char (c mod 64) # base64 rest"

definition generateFingerprint :: "job \<Rightarrow> jsstring" where
  "generateFingerprint job =
     (let data = title job @ js ''-'' @ location job @ js ''-'' @ service job
      in take 32 (base64 (utf8 data)))"

record supabase_row =
  row_title :: jsstring
  job_name :: jsstring
  posted_at :: "jsstring option"
  row_location :: jsstring
  row_city :: jsstring
  row_state :: jsstring
  source_url :: "jsstring option"
  fingerprint :: jsstring
  row_found_time :: "jsstring option"

text \<open>
  The part of \<open>insertJobsToSupabase\<close> before the request: the rows, and the
  \<open>Map\<close> from fingerprint to row, which keeps its keys in insertion order and is
  modelled by an association list.
\<close>

definition supabaseJobs :: "int \<Rightarrow> service \<Rightarrow> job list \<Rightarrow> supabase_row list" where
  "supabaseJobs tza svc jobList =
     map (\<lambda>job. \<lparr> row_title = title job,
                  job_name = display_name svc,
                  posted_at = convertToISOString tza (posted_date job),
                  row_location = location job,
                  row_city = city job,
                  row_state = state job,
                  source_url = None,
                  fingerprint = generateFingerprint job,
                  row_found_time = found_time job \<rparr>) jobList"

fun fingerprintToJob ::
  "(jsstring \<times> supabase_row) list \<Rightarrow> supabase_row list \<Rightarrow> (jsstring \<times> supabase_row) list" where
  "fingerprintToJob m [] = m"
| "fingerprintToJob m (row # rows) =
     (if fingerprint row \<notin> set (map fst m)
      then fingerprintToJob (m @ [(fingerprint row, row)]) rows
      else fingerprintToJob m rows)"

definition dedupedJobs :: "supabase_row list \<Rightarrow> supabase_row list" where
  "dedupedJobs rows = map snd (fingerprintToJob [] rows)"

section \<open>Example inputs\<close>

definition ex_element :: element where
  "ex_element =
     (\<lambda>selector. if selector = js ''h3'' then Some (js '' Delivery Driver '')
                 else if selector = js ''.vNEEBe'' then Some (js ''Acme'')
                 else None)"

definition ex_service :: service where
  "ex_service =
     \<lparr> name = js ''spark_delivery'', display_name = js ''Spark'', table = js ''spark_jobs'',
       enabled = True, validationWords = Some [js ''DRIVER''], svc_maxHoursWindow = Some 2 \<rparr>"

definition ex_scraper :: scraper where
  "ex_scraper = (JobScraper None)\<lparr> availableTimes := [js ''5 hours ago''] \<rparr>"



definition ex_html :: jsstring where
  "ex_html = js ''<p>5 hours ago</p><p>9 Hours Ago</p>''"

definition ex_document_many :: "nat \<Rightarrow> document" where
  "ex_document_many n = (\<lambda>selector. if selector = js ''.g'' then replicate n ex_element else [])"

section \<open>Lemmas on strings\<close>

lemma split_nonempty: "split sep s \<noteq> []"
  by (induction s) (auto split: list.splits)

lemma split_unfold:
  "split sep s = takeWhile (\<lambda>c. c \<noteq> sep) s #
     (case dropWhile (\<lambda>c. c \<noteq> sep) s of [] \<Rightarrow> [] | x # r \<Rightarrow> split sep r)"
proof (induction s)
  case Nil
  then show ?case by simp
next
  case (Cons c cs)
  show ?case
  proof (cases "c = sep")
    case True
    then show ?thesis using split_nonempty [of sep cs] by (simp split: list.splits)
  next
    case False
    then show ?thesis using Cons.IH by (simp split: list.splits)
  qed
qed

lemma hd_split: "hd (split sep s) = takeWhile (\<lambda>c. c \<noteq> sep) s"
  by (subst split_unfold) simp

lemma split_no_sep:
  assumes "sep \<notin> set s"
  shows "split sep s = [s]"
proof -
  from assms have "\<forall>x\<in>set s. x \<noteq> sep" by auto
  then have d: "dropWhile (\<lambda>c. c \<noteq> sep) s = []" and t: "takeWhile (\<lambda>c. c \<noteq> sep) s = s"
    by (simp_all add: takeWhile_eq_all_conv)
  show ?thesis by (subst split_unfold) (simp only: d t list.case)
qed

lemma length_split_ge2: "2 \<le> length (split sep s) \<longleftrightarrow> sep \<in> set s"
proof (cases "sep \<in> set s")
  case True
  then have "dropWhile (\<lambda>c. c \<noteq> sep) s \<noteq> []" by (simp add: dropWhile_eq_Nil_conv)
  then obtain x r where d: "dropWhile (\<lambda>c. c \<noteq> sep) s = x # r" by (cases "dropWhile (\<lambda>c. c \<noteq> sep) s") auto
  have "length (split sep r) \<ge> 1" using split_nonempty [of sep r] by (cases "split sep r") auto
  then show ?thesis using True d by (subst split_unfold) simp
next
  case False
  then show ?thesis by (simp add: split_no_sep)
qed

lemma split_second:
  assumes "sep \<in> set s"
  shows "split sep s ! 1 = takeWhile (\<lambda>c. c \<noteq> sep) (tl (dropWhile (\<lambda>c. c \<noteq> sep) s))"
proof -
  from assms have "dropWhile (\<lambda>c. c \<noteq> sep) s \<noteq> []" by (simp add: dropWhile_eq_Nil_conv)
  then obtain x r where d: "dropWhile (\<lambda>c. c \<noteq> sep) s = x # r" by (cases "dropWhile (\<lambda>c. c \<noteq> sep) s") auto
  have "split sep s ! 1 = hd (split sep r)"
    using d split_nonempty [of sep r] by (subst split_unfold) (simp add: hd_conv_nth)
  then show ?thesis using d by (simp add: hd_split)
qed

lemma trim_prefix: "s = dropWhile isWhiteSpace s \<Longrightarrow> \<exists>t. s = trim s @ t"
proof -
  assume a: "s = dropWhile isWhiteSpace s"
  have "rev s = takeWhile isWhiteSpace (rev s) @ dropWhile isWhiteSpace (rev s)" by simp
  then have "s = rev (dropWhile isWhiteSpace (rev s)) @ rev (takeWhile isWhiteSpace (rev s))"
    by (metis rev_append rev_rev_ident)
  then show ?thesis using a unfolding trim_def by metis
qed

lemma dropWhile_trim: "dropWhile isWhiteSpace (trim s) = trim s"
proof (cases "trim s")
  case Nil
  then show ?thesis by simp
next
  case (Cons a as)
  let ?d = "dropWhile isWhiteSpace s"
  have t: "trim s = trim ?d" by (simp add: trim_def)
  have "?d = dropWhile isWhiteSpace ?d" by simp
  then obtain u where u: "?d = trim ?d @ u" using trim_prefix by blast
  then have "?d = a # as @ u" using t Cons by (metis append_Cons)
  then have "\<not> isWhiteSpace a" by (metis hd_dropWhile list.sel(1) list.distinct(1))
  then show ?thesis using Cons by simp
qed

lemma trim_idem: "trim (trim s) = trim s"
proof -
  have "rev (trim s) = dropWhile isWhiteSpace (rev (dropWhile isWhiteSpace s))" by (simp add: trim_def)
  then have "dropWhile isWhiteSpace (rev (trim s)) = rev (trim s)" by simp
  then show ?thesis unfolding trim_def [of "trim s"] by (simp add: dropWhile_trim)
qed

section \<open>Lemmas on the regular expressions\<close>

lemma isDigit_lowerUnit [simp]: "isDigit (lowerUnit c) = isDigit c"
  by (auto simp: isDigit_def lowerUnit_def)

lemma isWhiteSpace_lowerUnit [simp]: "isWhiteSpace (lowerUnit c) = isWhiteSpace c"
  by (auto simp: isWhiteSpace_def lowerUnit_def)

lemma lowerUnit_digit: "isDigit c \<Longrightarrow> lowerUnit c = c"
  by (auto simp: isDigit_def lowerUnit_def)



lemma toLowerCase_append [simp]: "toLowerCase (a @ b) = toLowerCase a @ toLowerCase b"
  by (simp add: toLowerCase_def)



lemma takeWhile_toLowerCase_digit:
  "takeWhile isDigit (toLowerCase s) = takeWhile isDigit s"
  by (induction s) (simp_all add: toLowerCase_def lowerUnit_digit)

lemma dropWhile_toLowerCase_digit:
  "dropWhile isDigit (toLowerCase s) = toLowerCase (dropWhile isDigit s)"
  by (induction s) (simp_all add: toLowerCase_def)

lemma dropWhile_toLowerCase_space:
  "dropWhile isWhiteSpace (toLowerCase s) = toLowerCase (dropWhile isWhiteSpace s)"
  by (induction s) (simp_all add: toLowerCase_def)

lemma startsWith_iff: "startsWith s p \<longleftrightarrow> take (length p) s = p"
  by (induction s p rule: startsWith.induct) auto

lemma startsWith_append: "startsWith (p @ r) p"
  by (simp add: startsWith_iff)


















section \<open>Lemmas on parseLocation\<close>

lemma parseLocation_segments:
  "parseLocation s =
     \<lparr> parsed_city = trim (takeWhile (\<lambda>c. c \<noteq> comma) (trim (takeWhile (\<lambda>c. c \<noteq> bullet) s))),
       parsed_state = (if comma \<in> set (trim (takeWhile (\<lambda>c. c \<noteq> bullet) s))
                then trim (takeWhile (\<lambda>c. c \<noteq> comma)
                       (tl (dropWhile (\<lambda>c. c \<noteq> comma) (trim (takeWhile (\<lambda>c. c \<noteq> bullet) s)))))
                else []) \<rparr>"
proof -
  let ?clean = "trim (takeWhile (\<lambda>c. c \<noteq> bullet) s)"
  show ?thesis
  proof (cases "comma \<in> set ?clean")
    case True
    then have l: "2 \<le> length (split comma ?clean)" by (simp add: length_split_ge2)
    then have "map trim (split comma ?clean) ! 0 = trim (hd (split comma ?clean))"
      and "map trim (split comma ?clean) ! 1 = trim (split comma ?clean ! 1)"
      by (simp_all add: hd_conv_nth split_nonempty)
    then have "map trim (split comma ?clean) ! 0 = trim (takeWhile (\<lambda>c. c \<noteq> comma) ?clean)"
      and "map trim (split comma ?clean) ! 1 =
           trim (takeWhile (\<lambda>c. c \<noteq> comma) (tl (dropWhile (\<lambda>c. c \<noteq> comma) ?clean)))"
      using True by (simp_all only: hd_split split_second)
    then show ?thesis using True l
      unfolding parseLocation_def Let_def hd_split by simp
  next
    case False
    have sp: "split comma ?clean = [?clean]" using False by (rule split_no_sep)
    have "\<forall>x\<in>set ?clean. x \<noteq> comma" using False by auto
    then have tw: "takeWhile (\<lambda>c. c \<noteq> comma) ?clean = ?clean"
      by (simp add: takeWhile_eq_all_conv)
    have "parseLocation s = \<lparr> parsed_city = ?clean, parsed_state = [] \<rparr>"
      unfolding parseLocation_def Let_def hd_split sp by simp
    then show ?thesis using False by (simp only: tw trim_idem if_False)
  qed
qed

section \<open>Lemmas on extraction and validation\<close>





lemma isTimeWithin6Hours_cong:
  "maxHoursWindow a = maxHoursWindow b \<Longrightarrow> isTimeWithin6Hours a t = isTimeWithin6Hours b t"
  by (simp only: isTimeWithin6Hours_def)








section \<open>Lemmas on parseJobsFromHTML\<close>

lemma processJobs_trace:
  "fst (processJobs this tza clock svc i els) =
   map fst (filter snd (processTrace this tza clock svc i els))"
proof (induction els arbitrary: this i)
  case Nil
  then show ?case by simp
next
  case (Cons el els)
  obtain jobData this1 where e: "extractJobDataFromElement this tza (clock i) el svc = (jobData, this1)"
    by (cases "extractJobDataFromElement this tza (clock i) el svc") auto
  obtain js' this2 where p: "processJobs this1 tza clock svc (i + 1) els = (js', this2)"
    by (cases "processJobs this1 tza clock svc (i + 1) els") auto
  have "js' = map fst (filter snd (processTrace this1 tza clock svc (i + 1) els))"
    using Cons.IH [of this1 "i + 1"] p by simp
  then show ?case using e p by simp
qed

lemma length_processTrace: "length (processTrace this tza clock svc i els) = length els"
proof (induction els arbitrary: this i)
  case Nil
  then show ?case by simp
next
  case (Cons el els)
  obtain jobData this1 where e: "extractJobDataFromElement this tza (clock i) el svc = (jobData, this1)"
    by (cases "extractJobDataFromElement this tza (clock i) el svc") auto
  then show ?case using Cons.IH [of this1 "i + 1"] by simp
qed





lemma parseJobsFromHTML_found:
  assumes "JSDOM html = Inr doc" "findJobElements doc jobSelectors \<noteq> []"
  shows "parseJobsFromHTML this JSDOM tza clock html svc =
     Inr (\<lparr> jobs = fst (processJobs (this\<lparr> availableTimes := matchAll html, timeIndex := 0 \<rparr>)
                      tza clock svc 0 (take CONFIG_maxJobs (findJobElements doc jobSelectors))),
            totalFound = length (findJobElements doc jobSelectors) \<rparr>,
          snd (processJobs (this\<lparr> availableTimes := matchAll html, timeIndex := 0 \<rparr>)
                      tza clock svc 0 (take CONFIG_maxJobs (findJobElements doc jobSelectors))))"
proof -
  have "take (min (length (findJobElements doc jobSelectors)) CONFIG_maxJobs)
          (findJobElements doc jobSelectors) =
        take CONFIG_maxJobs (findJobElements doc jobSelectors)"
    by (simp add: min_def)
  then show ?thesis
    using assms by (simp add: parseJobsFromHTML_def Let_def split: prod.splits)
qed

lemma parseJobsFromHTML_no_containers:
  assumes "JSDOM html = Inr doc" "findJobElements doc jobSelectors = []"
  shows "parseJobsFromHTML this JSDOM tza clock html svc =
     Inr (\<lparr> jobs = [], totalFound = 0 \<rparr>,
          this\<lparr> availableTimes := matchAll html, timeIndex := 0 \<rparr>)"
  using assms by (simp add: parseJobsFromHTML_def Let_def)

lemma parseJobsFromHTML_throws:
  assumes "JSDOM html = Inl e"
  shows "parseJobsFromHTML this JSDOM tza clock html svc = Inl e"
  using assms by (simp add: parseJobsFromHTML_def)

lemma findJobElements_empty:
  "findJobElements doc sels = [] \<longleftrightarrow> (\<forall>s\<in>set sels. doc s = [])"
  by (induction sels) auto



lemma ex_document_many_elements:
  "0 < n \<Longrightarrow> findJobElements (ex_document_many n) jobSelectors = replicate n ex_element"
  by (simp add: ex_document_many_def jobSelectors_def js_def)

section \<open>Lemmas on the threshold\<close>






section \<open>Lemmas on deduplication\<close>

lemma fingerprintToJob_snoc:
  "fingerprintToJob m (rows @ [r]) =
     (if fingerprint r \<in> set (map fst (fingerprintToJob m rows))
      then fingerprintToJob m rows
      else fingerprintToJob m rows @ [(fingerprint r, r)])"
  by (induction rows arbitrary: m) simp_all

lemma fingerprintToJob_keys:
  "set (map fst (fingerprintToJob m rows)) = set (map fst m) \<union> fingerprint ` set rows"
  by (induction rows arbitrary: m) auto

lemma dedupedJobs_Nil: "dedupedJobs [] = []"
  by (simp add: dedupedJobs_def)

lemma dedupedJobs_snoc:
  "dedupedJobs (rows @ [r]) =
     (if fingerprint r \<in> fingerprint ` set rows then dedupedJobs rows
      else dedupedJobs rows @ [r])"
  using fingerprintToJob_keys [of "[]" rows]
  by (simp add: dedupedJobs_def fingerprintToJob_snoc)

lemma dedupedJobs_fingerprints:
  "fingerprint ` set (dedupedJobs rows) = fingerprint ` set rows"
  by (induction rows rule: rev_induct) (auto simp: dedupedJobs_Nil dedupedJobs_snoc)

lemma dedupedJobs_subset: "set (dedupedJobs rows) \<subseteq> set rows"
  by (induction rows rule: rev_induct) (auto simp: dedupedJobs_Nil dedupedJobs_snoc)

lemma dedupedJobs_distinct: "distinct (map fingerprint (dedupedJobs rows))"
proof (induction rows rule: rev_induct)
  case Nil
  then show ?case by (simp add: dedupedJobs_Nil)
next
  case (snoc r rows)
  show ?case
  proof (cases "fingerprint r \<in> fingerprint ` set rows")
    case True
    then show ?thesis using snoc by (simp add: dedupedJobs_snoc)
  next
    case False
    then have "fingerprint r \<notin> fingerprint ` set (dedupedJobs rows)"
      by (simp add: dedupedJobs_fingerprints)
    then show ?thesis using snoc False by (simp add: dedupedJobs_snoc)
  qed
qed

lemma dedupedJobs_of_distinct:
  "distinct (map fingerprint rows) \<Longrightarrow> dedupedJobs rows = rows"
  by (induction rows rule: rev_induct) (auto simp: dedupedJobs_Nil dedupedJobs_snoc)

lemma dedupedJobs_first_occurrences:
  "dedupedJobs rows =
     map (\<lambda>i. rows ! i)
       (filter (\<lambda>i. fingerprint (rows ! i) \<notin> fingerprint ` set (take i rows)) [0..<length rows])"
proof (induction rows rule: rev_induct)
  case Nil
  then show ?case by (simp add: dedupedJobs_Nil)
next
  case (snoc r rows)
  let ?P = "\<lambda>xs i. fingerprint (xs ! i) \<notin> fingerprint ` set (take i xs)"
  have a: "filter (?P (rows @ [r])) [0..<length rows] = filter (?P rows) [0..<length rows]"
    by (rule filter_cong) (auto simp: nth_append)
  have b: "map (\<lambda>i. (rows @ [r]) ! i) (filter (?P rows) [0..<length rows]) =
           map (\<lambda>i. rows ! i) (filter (?P rows) [0..<length rows])"
    by (rule map_cong) (auto simp: nth_append)
  have c: "?P (rows @ [r]) (length rows) \<longleftrightarrow> fingerprint r \<notin> fingerprint ` set rows"
    by simp
  show ?case
    using snoc a b c by (simp add: dedupedJobs_snoc)
qed

section \<open>Claims\<close>



text \<open>
  C9. \<open>parseLocation\<close> keeps what precedes the first bullet and trims it; the city
  is the trimmed text before the first comma and the state is the trimmed text between
  the first and the second comma, or the empty string when there is no comma.
  \<open>Austin, TX \<bullet> Remote\<close> gives the city \<open>Austin\<close> and the state \<open>TX\<close>, and
  \<open>Remote\<close> gives the city \<open>Remote\<close> and the empty state.
\<close>

theorem parseLocation_city_state:
  "parseLocation s =
     \<lparr> parsed_city = trim (takeWhile (\<lambda>c. c \<noteq> comma) (trim (takeWhile (\<lambda>c. c \<noteq> bullet) s))),
       parsed_state = (if comma \<in> set (trim (takeWhile (\<lambda>c. c \<noteq> bullet) s))
                then trim (takeWhile (\<lambda>c. c \<noteq> comma)
                       (tl (dropWhile (\<lambda>c. c \<noteq> comma) (trim (takeWhile (\<lambda>c. c \<noteq> bullet) s)))))
                else []) \<rparr> \<and>
   parseLocation (js ''Austin, TX '' @ [bullet] @ js '' Remote'') =
     \<lparr> parsed_city = js ''Austin'', parsed_state = js ''TX'' \<rparr> \<and>
   parseLocation (js ''Remote'') = \<lparr> parsed_city = js ''Remote'', parsed_state = [] \<rparr>"
proof (intro conjI)
  show "parseLocation (js ''Austin, TX '' @ [bullet] @ js '' Remote'') =
     \<lparr> parsed_city = js ''Austin'', parsed_state = js ''TX'' \<rparr>"
    by (simp add: parseLocation_def js_def trim_def isWhiteSpace_def bullet_def comma_def)
  show "parseLocation (js ''Remote'') = \<lparr> parsed_city = js ''Remote'', parsed_state = [] \<rparr>"
    by (simp add: parseLocation_def js_def trim_def isWhiteSpace_def bullet_def comma_def)
qed (rule parseLocation_segments)





text \<open>
  C10. When the document has containers, only the first 100 of them (CONFIG.maxJobs) are
  extracted and validated: the returned jobs are the valid records among the first 100
  containers, so there are at most 100 of them, while \<open>totalFound\<close> is the number of
  all containers. Two documents whose first 100 containers are the same give the same
  jobs and leave the same scraper object behind.
\<close>

theorem at_most_100_containers:
  assumes "JSDOM html = Inr doc" and "JSDOM' html = Inr doc'"
    and "findJobElements doc jobSelectors \<noteq> []"
    and "take 100 (findJobElements doc jobSelectors) = take 100 (findJobElements doc' jobSelectors)"
  shows "\<exists>r r' s.
           parseJobsFromHTML this JSDOM tza clock html svc = Inr (r, s) \<and>
           parseJobsFromHTML this JSDOM' tza clock html svc = Inr (r', s) \<and>
           jobs r' = jobs r \<and>
           jobs r = map fst (filter snd
                      (processTrace (this\<lparr> availableTimes := matchAll html, timeIndex := 0 \<rparr>)
                         tza clock svc 0 (take 100 (findJobElements doc jobSelectors)))) \<and>
           length (jobs r) \<le> 100 \<and>
           totalFound r = length (findJobElements doc jobSelectors) \<and>
           totalFound r' = length (findJobElements doc' jobSelectors)"
proof -
  let ?init = "this\<lparr> availableTimes := matchAll html, timeIndex := 0 \<rparr>"
  let ?els = "findJobElements doc jobSelectors"
  let ?elsb = "findJobElements doc' jobSelectors"
  let ?p = "processJobs ?init tza clock svc 0 (take 100 ?els)"
  let ?trace = "processTrace ?init tza clock svc 0 (take 100 ?els)"
  have ne: "?elsb \<noteq> []" using assms(3,4) by (cases ?els; cases ?elsb) auto
  have r: "parseJobsFromHTML this JSDOM tza clock html svc =
      Inr (\<lparr> jobs = fst ?p, totalFound = length ?els \<rparr>, snd ?p)"
    using parseJobsFromHTML_found [of JSDOM html doc this tza clock svc] assms(1,3)
    by (simp add: CONFIG_maxJobs_def)
  have r': "parseJobsFromHTML this JSDOM' tza clock html svc =
      Inr (\<lparr> jobs = fst ?p, totalFound = length ?elsb \<rparr>, snd ?p)"
    using parseJobsFromHTML_found [of JSDOM' html doc' this tza clock svc] assms(2,4) ne
    by (simp add: CONFIG_maxJobs_def)
  have "length (map fst (filter snd ?trace)) \<le> length ?trace" by simp
  also have "\<dots> \<le> 100" by (simp add: length_processTrace)
  finally have l: "length (fst ?p) \<le> 100" by (simp add: processJobs_trace)
  show ?thesis using r r' l by (simp add: processJobs_trace)
qed

theorem at_most_100_containers_witness:
  "(\<lambda>html. Inr (ex_document_many 101)) ex_html = (Inr (ex_document_many 101) :: error + document) \<and>
   (\<lambda>html. Inr (ex_document_many 100)) ex_html = (Inr (ex_document_many 100) :: error + document) \<and>
   findJobElements (ex_document_many 101) jobSelectors \<noteq> [] \<and>
   take 100 (findJobElements (ex_document_many 101) jobSelectors) =
     take 100 (findJobElements (ex_document_many 100) jobSelectors) \<and>
   (\<exists>r r' s.
      parseJobsFromHTML ex_scraper (\<lambda>html. Inr (ex_document_many 101)) 0 (\<lambda>i. 0) ex_html ex_service =
        Inr (r, s) \<and>
      parseJobsFromHTML ex_scraper (\<lambda>html. Inr (ex_document_many 100)) 0 (\<lambda>i. 0) ex_html ex_service =
        Inr (r', s) \<and>
      jobs r' = jobs r \<and> length (jobs r) \<le> 100 \<and> totalFound r = 101 \<and> totalFound r' = 100)"
proof -
  have e: "findJobElements (ex_document_many 101) jobSelectors = replicate 101 ex_element"
    "findJobElements (ex_document_many 100) jobSelectors = replicate 100 ex_element"
    by (simp_all add: ex_document_many_elements)
  have h: "findJobElements (ex_document_many 101) jobSelectors \<noteq> []"
    "take 100 (findJobElements (ex_document_many 101) jobSelectors) =
     take 100 (findJobElements (ex_document_many 100) jobSelectors)"
    unfolding e by simp_all
  show ?thesis
    using at_most_100_containers [of "\<lambda>html. Inr (ex_document_many 101)" ex_html
        "ex_document_many 101" "\<lambda>html. Inr (ex_document_many 100)" "ex_document_many 100"
        ex_scraper 0 "\<lambda>i. 0" ex_service] h
    unfolding e by auto
qed




text \<open>
  C4. The deduplication of \<open>insertJobsToSupabase\<close> runs on the rows built from the
  jobs, before the request, and the fingerprint of a row is \<open>generateFingerprint\<close>
  of its job. It keeps exactly the rows whose fingerprint does not occur earlier in the
  batch, in their original order; the kept fingerprints are distinct and are all the
  fingerprints of the batch; deduplicating twice is deduplicating once.
\<close>

theorem dedup_keeps_first_occurrence:
  "dedupedJobs rows =
     map (\<lambda>i. rows ! i)
       (filter (\<lambda>i. fingerprint (rows ! i) \<notin> fingerprint ` set (take i rows)) [0..<length rows]) \<and>
   distinct (map fingerprint (dedupedJobs rows)) \<and>
   fingerprint ` set (dedupedJobs rows) = fingerprint ` set rows \<and>
   dedupedJobs (dedupedJobs rows) = dedupedJobs rows \<and>
   map fingerprint (supabaseJobs tza svc jobList) = map generateFingerprint jobList"
proof (intro conjI)
  show "dedupedJobs (dedupedJobs rows) = dedupedJobs rows"
    using dedupedJobs_distinct by (rule dedupedJobs_of_distinct)
  show "map fingerprint (supabaseJobs tza svc jobList) = map generateFingerprint jobList"
    by (simp add: supabaseJobs_def)
qed (rule dedupedJobs_first_occurrences dedupedJobs_distinct dedupedJobs_fingerprints)+

end
